theory Spec2Isabelle
  imports Complex_Main
begin

section \<open>QAOA from a bit-flip oracle: the driver, the cost circuit and the objective\<close>

text \<open>
  A shallow embedding of \<^verbatim>\<open>optimizer_comparison/std_qaoa/qaoa_from_bitflip.py\<close>.
  Python numbers are read as reals (the rounding of IEEE doubles is not modelled), a
  measurement-count dictionary is the list of its items in iteration order, and every
  exception is a value of type \<open>error\<close>.
\<close>

subsection \<open>Exceptions\<close>

text \<open>
  The first four are what Python and the circuit library raise on the paths below.
  \<open>ExternalError\<close> stands for whatever a collaborator (the formula's simulator, the
  backend) raises. The last two are the error names of the specification; no function of
  the source raises them.
\<close>

datatype error =
    ZeroDivisionError
  | IndexError
  | AttributeError
  | CircuitError
  | ExternalError string
  | NoMeasurementsError
  | MalformedMeasurementError

definition err_bind :: "error + 'a \<Rightarrow> ('a \<Rightarrow> error + 'b) \<Rightarrow> error + 'b" where
  "err_bind r k = (case r of Inl e \<Rightarrow> Inl e | Inr v \<Rightarrow> k v)"

subsection \<open>Circuits as the source builds them\<close>

text \<open>
  A gate angle is a number, a free parameter, or a number times an angle (\<^verbatim>\<open>2 * beta\<close>).
  A circuit is its number of qubits and the list of its instructions, each with the qubits
  it acts on. Appending a circuit to a circuit keeps it whole, as one instruction.
\<close>

datatype param_expr = Num real | Param string | Times real param_expr

datatype instruction =
    XGate
  | PhaseGate param_expr
  | RXGate param_expr
  | CircuitInstr quantum_circuit
and quantum_circuit =
    QuantumCircuit (num_qubits: nat) (data: "(instruction \<times> nat list) list")

fun instr_width :: "instruction \<Rightarrow> nat" where
  "instr_width XGate = 1"
| "instr_width (PhaseGate theta) = 1"
| "instr_width (RXGate theta) = 1"
| "instr_width (CircuitInstr c) = num_qubits c"

definition py_range :: "int \<Rightarrow> int \<Rightarrow> int list" where
  \<comment> \<open>\<^verbatim>\<open>range(a, b)\<close>: empty when \<open>b \<le> a\<close>.\<close>
  "py_range a b = map (\<lambda>k. a + int k) [0..<nat (b - a)]"

definition new_circuit :: "int \<Rightarrow> error + quantum_circuit" where
  \<comment> \<open>\<^verbatim>\<open>QuantumCircuit(n)\<close>, \<^verbatim>\<open>QuantumCircuit(QuantumRegister(n))\<close>: a negative size is rejected.\<close>
  "new_circuit n = (if n < 0 then Inl CircuitError else Inr (QuantumCircuit (nat n) []))"

definition qubit_at :: "quantum_circuit \<Rightarrow> int \<Rightarrow> error + nat" where
  \<comment> \<open>An integer qubit argument indexes the qubit list as Python does: negative indices
      count from the end, anything out of range is rejected.\<close>
  "qubit_at circ i =
     (let n = int (num_qubits circ); j = (if i < 0 then n + i else i)
      in if 0 \<le> j \<and> j < n then Inr (nat j) else Inl CircuitError)"

fun qubits_at :: "quantum_circuit \<Rightarrow> int list \<Rightarrow> error + nat list" where
  "qubits_at circ [] = Inr []"
| "qubits_at circ (i # rest) =
     err_bind (qubit_at circ i) (\<lambda>q. err_bind (qubits_at circ rest) (\<lambda>qs. Inr (q # qs)))"

definition append_instr ::
  "instruction \<Rightarrow> int list \<Rightarrow> quantum_circuit \<Rightarrow> error + quantum_circuit" where
  \<comment> \<open>\<^verbatim>\<open>circ.append(instr, qargs)\<close>: the qubits must exist, be as many as the instruction
      is wide, and be pairwise different.\<close>
  "append_instr g qargs circ =
     err_bind (qubits_at circ qargs) (\<lambda>qs.
       if length qs \<noteq> instr_width g \<or> \<not> distinct qs then Inl CircuitError
       else Inr (QuantumCircuit (num_qubits circ) (data circ @ [(g, qs)])))"

definition x_gate :: "int \<Rightarrow> quantum_circuit \<Rightarrow> error + quantum_circuit" where
  "x_gate q circ = append_instr XGate [q] circ"

definition p_gate :: "param_expr \<Rightarrow> int \<Rightarrow> quantum_circuit \<Rightarrow> error + quantum_circuit" where
  "p_gate theta q circ = append_instr (PhaseGate theta) [q] circ"

definition rx_gate :: "param_expr \<Rightarrow> int \<Rightarrow> quantum_circuit \<Rightarrow> error + quantum_circuit" where
  "rx_gate theta q circ = append_instr (RXGate theta) [q] circ"

subsection \<open>The compiled formula\<close>

text \<open>
  The source uses three things of a compiled formula: its argument names, the circuit
  \<^verbatim>\<open>synth()\<close> returns and \<^verbatim>\<open>simulate(inputs)\<close>, which returns a list of output bits. Both
  calls may raise.
\<close>

record formula =
  args :: "string list"
  synth :: "error + quantum_circuit"
  simulate :: "bool list \<Rightarrow> error + bool list"

subsection \<open>\<^verbatim>\<open>standard_mixer\<close>\<close>

definition beta_name :: string where
  \<comment> \<open>The Python literal \<^verbatim>\<open>"$\\beta$"\<close>: dollar, backslash, beta, dollar.\<close>
  "beta_name = CHR ''$'' # CHR 0x5C # ''beta$''"

fun mixer_loop :: "param_expr \<Rightarrow> int list \<Rightarrow> quantum_circuit \<Rightarrow> error + quantum_circuit" where
  "mixer_loop beta [] circ = Inr circ"
| "mixer_loop beta (i # rest) circ =
     err_bind (rx_gate (Times 2 beta) i circ) (mixer_loop beta rest)"

definition standard_mixer :: "int \<Rightarrow> error + quantum_circuit" where
  "standard_mixer n =
     (let beta = Param beta_name
      in err_bind (new_circuit n) (mixer_loop beta (py_range 0 n)))"

subsection \<open>\<^verbatim>\<open>get_cost_circuit\<close>\<close>

definition get_cost_circuit :: "formula \<Rightarrow> error + quantum_circuit" where
  "get_cost_circuit input_formula =
     err_bind (synth input_formula) (\<lambda>bcirc.
     err_bind (new_circuit (int (num_qubits bcirc))) (\<lambda>c0.
     err_bind (x_gate (int (num_qubits bcirc) - 1) c0) (\<lambda>c1.
     err_bind (append_instr (CircuitInstr bcirc) (py_range 0 (int (num_qubits c1))) c1) (\<lambda>c2.
     err_bind (p_gate (Num ((- 1) * pi)) (int (num_qubits c2) - 1) c2) (\<lambda>c3.
     err_bind (append_instr (CircuitInstr bcirc) (py_range 0 (int (num_qubits bcirc))) c3) (\<lambda>c4.
     x_gate (int (num_qubits c4) - 1) c4))))))"

subsection \<open>\<^verbatim>\<open>get_objective_fn\<close>\<close>

definition slice_from :: "int \<Rightarrow> 'a list \<Rightarrow> 'a list" where
  \<comment> \<open>Python's \<^verbatim>\<open>s[i:]\<close>: a negative start counts from the end and is clipped at the
      front, a start past the end gives the empty sequence.\<close>
  "slice_from i s =
     (let n = int (length s); j = (if i < 0 then max 0 (n + i) else min i n)
      in drop (nat j) s)"

definition get_objective_fn :: "formula \<Rightarrow> string \<Rightarrow> error + int" where
  \<comment> \<open>The closure \<^verbatim>\<open>cf\<close> of \<^verbatim>\<open>get_objective_fn(input_formula)\<close>, applied to \<^verbatim>\<open>bitvec\<close>.\<close>
  "get_objective_fn input_formula bitvec =
     (let num_input_qubits = int (length (args input_formula));
          inputs_str = slice_from (- num_input_qubits) bitvec;
          inputs = map (\<lambda>c. c = CHR ''1'') (rev inputs_str)
      in err_bind (simulate input_formula inputs) (\<lambda>output.
           case output of
             [] \<Rightarrow> Inl IndexError
           | b # _ \<Rightarrow> Inr (if b then 0 else 1)))"

subsection \<open>The driver \<^verbatim>\<open>QAOAbf\<close>\<close>

text \<open>
  \<^verbatim>\<open>__init__\<close> sets the first three fields. \<^verbatim>\<open>best_fval\<close> and \<^verbatim>\<open>best_params\<close> exist only
  once \<^verbatim>\<open>run\<close> has assigned them: \<open>best_fval = None\<close> is the missing attribute, and
  \<open>best_params = None\<close> is Python's \<^verbatim>\<open>None\<close> (or the missing attribute, which nothing
  below reads).
\<close>

type_synonym counts = "(string \<times> int) list"

record QAOAbf =
  cost_op :: quantum_circuit
  obj_value_fn :: "string \<Rightarrow> error + real"
  init_circuit :: "quantum_circuit option"
  best_fval :: "real option"
  best_params :: "real list option"

definition init :: "quantum_circuit \<Rightarrow> (string \<Rightarrow> error + real) \<Rightarrow> quantum_circuit option \<Rightarrow> QAOAbf" where
  "init c f ic =
     \<lparr>cost_op = c, obj_value_fn = f, init_circuit = ic, best_fval = None, best_params = None\<rparr>"

fun obj_fn_loop ::
  "(string \<Rightarrow> error + real) \<Rightarrow> counts \<Rightarrow> real \<Rightarrow> int \<Rightarrow> error + real \<times> int" where
  "obj_fn_loop f [] sum_obj num_entries = Inr (sum_obj, num_entries)"
| "obj_fn_loop f ((bitvec, count) # rest) sum_obj num_entries =
     err_bind (f bitvec) (\<lambda>obj.
       obj_fn_loop f rest (sum_obj + obj * of_int count) (num_entries + count))"

definition obj_fn :: "QAOAbf \<Rightarrow> counts \<Rightarrow> error + real" where
  "obj_fn self cts =
     err_bind (obj_fn_loop (obj_value_fn self) cts 0 0) (\<lambda>(sum_obj, num_entries).
       if num_entries = 0 then Inl ZeroDivisionError
       else Inr (sum_obj / of_int num_entries))"

text \<open>
  The closure \<^verbatim>\<open>execute\<close> that \<^verbatim>\<open>get_executor\<close> returns. Binding the parameters and
  running the backend are the collaborators' work: what they give back for this call,
  the counts or an exception, is the argument \<open>backend_result\<close>. The call returns its
  result together with the driver as it leaves it.
\<close>

definition execute ::
  "QAOAbf \<Rightarrow> real list \<Rightarrow> error + counts \<Rightarrow> (error + real) \<times> QAOAbf" where
  "execute self paramlist backend_result =
     (case backend_result of
        Inl e \<Rightarrow> (Inl e, self)
      | Inr cts \<Rightarrow>
          (case obj_fn self cts of
             Inl e \<Rightarrow> (Inl e, self)
           | Inr obj_val \<Rightarrow>
               (case best_fval self of
                  None \<Rightarrow> (Inl AttributeError, self)
                | Some best \<Rightarrow>
                    if obj_val < best
                    then (Inr obj_val, self\<lparr>best_fval := Some obj_val, best_params := Some paramlist\<rparr>)
                    else (Inr obj_val, self))))"

text \<open>A sequence of calls of the closure, each with its parameters and what the backend gave.\<close>

fun execute_calls ::
  "QAOAbf \<Rightarrow> (real list \<times> (error + counts)) list \<Rightarrow> (error + real) list \<times> QAOAbf" where
  "execute_calls self [] = ([], self)"
| "execute_calls self ((paramlist, r) # calls) =
     (case execute self paramlist r of
        (v, self1) \<Rightarrow>
          (case execute_calls self1 calls of (vs, self2) \<Rightarrow> (v # vs, self2)))"

text \<open>
  \<^verbatim>\<open>run\<close>, up to the call of the optimizer: the reset of the best result, and the start
  vector. \<open>random_sample k\<close> is what the \<open>k\<close>-th call of \<^verbatim>\<open>np.random.random_sample()\<close>
  returns.
\<close>

definition run_reset :: "QAOAbf \<Rightarrow> QAOAbf" where
  "run_reset self = self\<lparr>best_fval := Some 1000, best_params := None\<rparr>"

definition run_initial_parameters :: "int \<Rightarrow> real list option \<Rightarrow> (nat \<Rightarrow> real) \<Rightarrow> real list" where
  "run_initial_parameters p initial_parameters random_sample =
     (case initial_parameters of
        None \<Rightarrow> map (\<lambda>i. random_sample (nat i) * pi) (py_range 0 (2 * p))
      | Some x0 \<Rightarrow> x0)"

text \<open>
  The optimizer is a black box that calls the executor. Here it is a function of the
  start vector and of the evaluations made so far, which either asks for one more
  evaluation or stops with its result. The backend is the list of what it gives back, run
  after run. \<^verbatim>\<open>minimize\<close> is \<open>None\<close> when the optimizer has not stopped within these runs.
\<close>

datatype 'r optimizer_step = Evaluate "real list" | Finish 'r

type_synonym 'r optimizer = "real list \<Rightarrow> (real list \<times> real) list \<Rightarrow> 'r optimizer_step"

fun minimize ::
  "'r optimizer \<Rightarrow> real list \<Rightarrow> (real list \<times> real) list \<Rightarrow> (error + counts) list \<Rightarrow> QAOAbf
     \<Rightarrow> ((error + 'r) \<times> (error + counts) list \<times> QAOAbf) option" where
  "minimize opt x0 evals backend_results self =
     (case opt x0 evals of
        Finish res \<Rightarrow> Some (Inr res, backend_results, self)
      | Evaluate paramlist \<Rightarrow>
          (case backend_results of
             [] \<Rightarrow> None
           | r # rest \<Rightarrow>
               (case execute self paramlist r of
                  (Inl e, self1) \<Rightarrow> Some (Inl e, rest, self1)
                | (Inr v, self1) \<Rightarrow> minimize opt x0 (evals @ [(paramlist, v)]) rest self1)))"

text \<open>
  \<^verbatim>\<open>run\<close>: the reset, the start vector, the optimization, and one more run of the backend
  at the best parameters (\<^verbatim>\<open>get_outputs\<close>). It returns the optimizer's result, the last
  counts, \<^verbatim>\<open>best_fval\<close> and \<^verbatim>\<open>best_params\<close>, together with the driver as it leaves it.
\<close>

definition run ::
  "QAOAbf \<Rightarrow> int \<Rightarrow> (error + counts) list \<Rightarrow> 'r optimizer \<Rightarrow> real list option \<Rightarrow> (nat \<Rightarrow> real)
     \<Rightarrow> ((error + 'r \<times> counts \<times> real option \<times> real list option) \<times> QAOAbf) option" where
  "run self p backend_results opt initial_parameters random_sample =
     (let self0 = run_reset self;
          x0 = run_initial_parameters p initial_parameters random_sample
      in case minimize opt x0 [] backend_results self0 of
           None \<Rightarrow> None
         | Some (Inl e, rest, self1) \<Rightarrow> Some (Inl e, self1)
         | Some (Inr result, rest, self1) \<Rightarrow>
             (case rest of
                [] \<Rightarrow> None
              | Inl e # _ \<Rightarrow> Some (Inl e, self1)
              | Inr outputs # _ \<Rightarrow>
                  Some (Inr (result, outputs, best_fval self1, best_params self1), self1)))"

subsection \<open>Concrete inputs\<close>

text \<open>
  The formula \<open>x1\<close> on one variable: its oracle has two qubits (the input and the output;
  its gates play no role below), and its simulator insists on one input. The formula
  \<open>x1 and x2\<close> with a simulator that folds whatever it is given, and the formula
  \<open>x1 and not x2\<close> with a simulator that insists on two inputs, \<open>x1\<close> first.
\<close>

definition x1_oracle :: quantum_circuit where
  "x1_oracle = QuantumCircuit 2 []"

definition x1_formula :: formula where
  "x1_formula =
     \<lparr>args = [''x1''], synth = Inr x1_oracle,
      simulate = (\<lambda>inputs. case inputs of [x] \<Rightarrow> Inr [x] | _ \<Rightarrow> Inl (ExternalError ''arity''))\<rparr>"

definition x1_cost_circuit :: quantum_circuit where
  "x1_cost_circuit =
     QuantumCircuit 2
       [(XGate, [1]), (CircuitInstr x1_oracle, [0, 1]), (PhaseGate (Num (- pi)), [1]),
        (CircuitInstr x1_oracle, [0, 1]), (XGate, [1])]"

definition and_formula :: formula where
  "and_formula =
     \<lparr>args = [''x1'', ''x2''], synth = Inr (QuantumCircuit 3 []),
      simulate = (\<lambda>inputs. Inr [list_all (\<lambda>x. x) inputs])\<rparr>"

definition x1_not_x2_formula :: formula where
  "x1_not_x2_formula =
     \<lparr>args = [''x1'', ''x2''], synth = Inr (QuantumCircuit 3 []),
      simulate = (\<lambda>inputs. case inputs of
                     [x1, x2] \<Rightarrow> Inr [x1 \<and> \<not> x2]
                   | _ \<Rightarrow> Inl (ExternalError ''arity''))\<rparr>"

text \<open>
  Drivers: one whose objective is the same number on every bitstring, one that costs 1 on
  \<open>00\<close> and 0 elsewhere, the driver of the formula \<open>x1\<close>, and a driver on one qubit whose
  cost circuit has a parameter of its own and whose objective is 0 on \<open>1\<close>.
\<close>

definition constant_driver :: "real \<Rightarrow> QAOAbf" where
  "constant_driver v = init (QuantumCircuit 1 []) (\<lambda>bitvec. Inr v) None"

definition zeros_cost_driver :: QAOAbf where
  "zeros_cost_driver =
     init (QuantumCircuit 2 []) (\<lambda>bitvec. Inr (if bitvec = ''00'' then 1 else 0)) None"

definition x1_driver :: QAOAbf where
  "x1_driver =
     init x1_cost_circuit
       (\<lambda>bitvec. case get_objective_fn x1_formula bitvec of Inl e \<Rightarrow> Inl e | Inr v \<Rightarrow> Inr (of_int v))
       None"

definition phase_driver :: QAOAbf where
  "phase_driver =
     init (QuantumCircuit 1 [(PhaseGate (Param ''gamma''), [0])])
       (\<lambda>bitvec. Inr (if bitvec = ''1'' then 0 else 1)) None"

definition x1_calls :: "(real list \<times> (error + counts)) list" where
  "x1_calls =
     [([1, 2], Inr [(''00'', 1), (''01'', 1)]),
      ([3, 4], Inr [(''01'', 2)]),
      ([5, 6], Inr [(''11'', 4)])]"

text \<open>
  Two optimizers that evaluate the start vector once and stop: the first returns the
  value it got, the second returns the start vector it was given.
\<close>

definition one_shot_optimizer :: "real optimizer" where
  "one_shot_optimizer x0 evals = (case evals of [] \<Rightarrow> Evaluate x0 | (p, v) # _ \<Rightarrow> Finish v)"

definition eval_once_optimizer :: "(real list) optimizer" where
  "eval_once_optimizer x0 evals = (case evals of [] \<Rightarrow> Evaluate x0 | _ \<Rightarrow> Finish x0)"

section \<open>Circuits\<close>

lemma qubits_at_in_range:
  "\<forall>k\<in>set ks. k < num_qubits c \<Longrightarrow> qubits_at c (map int ks) = Inr ks"
  by (induction ks) (simp_all add: err_bind_def qubit_at_def)

lemma py_range_from_zero: "py_range 0 (int n) = map int [0..<n]"
  by (simp add: py_range_def)

lemma qubits_at_all: "n \<le> num_qubits c \<Longrightarrow> qubits_at c (py_range 0 (int n)) = Inr [0..<n]"
  by (simp add: py_range_from_zero qubits_at_in_range)

lemma append_single:
  "0 < n \<Longrightarrow> instr_width g = 1 \<Longrightarrow>
   append_instr g [int n - 1] (QuantumCircuit n ds)
     = Inr (QuantumCircuit n (ds @ [(g, [n - 1])]))"
  by (auto simp: append_instr_def err_bind_def qubit_at_def Let_def nat_diff_distrib)

lemma append_whole:
  "num_qubits b = n \<Longrightarrow>
   append_instr (CircuitInstr b) (py_range 0 (int n)) (QuantumCircuit n ds)
     = Inr (QuantumCircuit n (ds @ [(CircuitInstr b, [0..<n])]))"
  by (simp add: append_instr_def err_bind_def qubits_at_all)

text \<open>
  C1. When \<^verbatim>\<open>synth()\<close> gives an oracle \<open>B\<close> on \<open>n\<close> qubits, \<^verbatim>\<open>get_cost_circuit\<close> returns a
  circuit on \<open>n\<close> qubits whose instructions are, in this order: X on qubit \<open>n - 1\<close>, \<open>B\<close> on
  qubits \<open>0, ..., n - 1\<close>, a phase gate of angle \<open>- \<pi>\<close> on qubit \<open>n - 1\<close>, \<open>B\<close> on all qubits
  again, X on qubit \<open>n - 1\<close>. Qubit \<open>n - 1\<close> exists when \<open>n\<close> is at least 1, as it is for an
  oracle, which has an output qubit.
\<close>

theorem get_cost_circuit_sequence:
  assumes "synth f = Inr B" and "0 < num_qubits B"
  shows "get_cost_circuit f =
           Inr (QuantumCircuit (num_qubits B)
                  [(XGate, [num_qubits B - 1]),
                   (CircuitInstr B, [0..<num_qubits B]),
                   (PhaseGate (Num (- pi)), [num_qubits B - 1]),
                   (CircuitInstr B, [0..<num_qubits B]),
                   (XGate, [num_qubits B - 1])])"
proof -
  let ?n = "num_qubits B"
  have c0: "new_circuit (int ?n) = Inr (QuantumCircuit ?n [])"
    by (simp add: new_circuit_def)
  show ?thesis
    using assms
    unfolding get_cost_circuit_def x_gate_def p_gate_def
    by (simp add: err_bind_def c0 append_single append_whole)
qed

theorem get_cost_circuit_sequence_witness:
  "synth x1_formula = Inr x1_oracle \<and> 0 < num_qubits x1_oracle
   \<and> get_cost_circuit x1_formula = Inr x1_cost_circuit"
proof -
  have s: "synth x1_formula = Inr x1_oracle"
    by (simp add: x1_formula_def)
  have n: "0 < num_qubits x1_oracle"
    by (simp add: x1_oracle_def)
  have two: "num_qubits x1_oracle = 2"
    by (simp add: x1_oracle_def)
  have r: "[0..<2] = [0, Suc 0]"
    by (simp add: upt_rec)
  show ?thesis
    using get_cost_circuit_sequence [OF s n] s n
    by (simp add: x1_cost_circuit_def two r)
qed

text \<open>With an oracle on no qubit there is no last qubit, and the first X gate is rejected.\<close>

lemma get_cost_circuit_no_qubits:
  "synth f = Inr B \<Longrightarrow> num_qubits B = 0 \<Longrightarrow> get_cost_circuit f = Inl CircuitError"
  unfolding get_cost_circuit_def x_gate_def
  by (simp add: err_bind_def new_circuit_def append_instr_def qubit_at_def)

lemma get_cost_circuit_synth_error:
  "synth f = Inl e \<Longrightarrow> get_cost_circuit f = Inl e"
  by (simp add: get_cost_circuit_def err_bind_def)

lemma mixer_loop_in_range:
  "\<forall>k\<in>set ks. k < num_qubits c \<Longrightarrow>
   mixer_loop beta (map int ks) c
     = Inr (QuantumCircuit (num_qubits c) (data c @ map (\<lambda>k. (RXGate (Times 2 beta), [k])) ks))"
proof (induction ks arbitrary: c)
  case Nil
  then show ?case by simp
next
  case (Cons k ks)
  have "rx_gate (Times 2 beta) (int k) c
          = Inr (QuantumCircuit (num_qubits c) (data c @ [(RXGate (Times 2 beta), [k])]))"
    using Cons.prems by (simp add: rx_gate_def append_instr_def err_bind_def qubit_at_def)
  then show ?case using Cons by (simp add: err_bind_def)
qed

text \<open>
  C9. For \<open>n \<ge> 0\<close>, \<^verbatim>\<open>standard_mixer(n)\<close> returns a circuit on \<open>n\<close> qubits whose instructions
  are one \<open>rx\<close> of angle \<open>2 * \<beta>\<close> on each qubit \<open>0, ..., n - 1\<close>, all on the one parameter
  \<open>\<beta>\<close>, and nothing else; for \<open>n = 0\<close> the circuit has no instruction.
\<close>

theorem standard_mixer_gates:
  "(0 \<le> n \<longrightarrow>
      standard_mixer n
        = Inr (QuantumCircuit (nat n)
                 (map (\<lambda>i. (RXGate (Times 2 (Param beta_name)), [i])) [0..<nat n])))
   \<and> standard_mixer 0 = Inr (QuantumCircuit 0 [])"
proof -
  have gen: "standard_mixer m
        = Inr (QuantumCircuit (nat m)
                 (map (\<lambda>i. (RXGate (Times 2 (Param beta_name)), [i])) [0..<nat m]))"
    if m: "0 \<le> m" for m
  proof -
    have r: "py_range 0 m = map int [0..<nat m]"
      using m by (simp add: py_range_def)
    show ?thesis
      using m by (simp add: standard_mixer_def new_circuit_def err_bind_def r mixer_loop_in_range)
  qed
  have "standard_mixer 0 = Inr (QuantumCircuit 0 [])"
    using gen [of 0] by simp
  with gen [of n] show ?thesis by simp
qed

theorem standard_mixer_gates_witness:
  "(0::int) \<le> 2
   \<and> standard_mixer 2
       = Inr (QuantumCircuit 2
                [(RXGate (Times 2 (Param beta_name)), [0]),
                 (RXGate (Times 2 (Param beta_name)), [1])])"
proof -
  have r: "[0..<2] = [0, Suc 0]"
    by (simp add: upt_rec)
  show ?thesis
    using standard_mixer_gates [of 2] by (simp add: r)
qed

lemma standard_mixer_negative: "n < 0 \<Longrightarrow> standard_mixer n = Inl CircuitError"
  by (simp add: standard_mixer_def new_circuit_def err_bind_def)

section \<open>The objective of a measured bitstring\<close>

lemma slice_from_last:
  "0 < k \<Longrightarrow> k \<le> length s \<Longrightarrow> slice_from (- int k) s = drop (length s - k) s"
  by (simp add: slice_from_def Let_def max_def nat_diff_distrib')

lemma slice_from_short: "length s < k \<Longrightarrow> slice_from (- int k) s = s"
  by (simp add: slice_from_def Let_def max_def)

lemma slice_from_zero: "slice_from 0 s = s"
  by (simp add: slice_from_def)

text \<open>
  With at least one input variable, the closure reads the last \<open>k\<close> characters only: on
  \<open>anc @ inp\<close> with \<open>inp\<close> of length \<open>k\<close> it simulates the reversal of \<open>inp\<close>, whatever the
  ancilla characters \<open>anc\<close> are, and answers 0 on a true first output and 1 on a false one.
\<close>

lemma objective_last_k:
  assumes "0 < length (args f)" and "length inp = length (args f)"
  shows "get_objective_fn f (anc @ inp)
           = err_bind (simulate f (map (\<lambda>c. c = CHR ''1'') (rev inp)))
               (\<lambda>output. case output of [] \<Rightarrow> Inl IndexError | b # _ \<Rightarrow> Inr (if b then 0 else 1))"
  using assms slice_from_last [of "length (args f)" "anc @ inp"]
  by (simp add: get_objective_fn_def Let_def)

lemma x1_objective:
  "get_objective_fn x1_formula (anc @ ''1'') = Inr 0"
  "get_objective_fn x1_formula (anc @ ''0'') = Inr 1"
  using objective_last_k [of x1_formula "''1''" anc] objective_last_k [of x1_formula "''0''" anc]
  by (simp_all add: x1_formula_def err_bind_def)

text \<open>
  A formula without input variables is not one that \<^verbatim>\<open>get_classical_fn\<close> builds (it fails on
  \<^verbatim>\<open>symbols[-1]\<close>). On such a formula the slice \<^verbatim>\<open>bitvec[-0:]\<close> would be \<^verbatim>\<open>bitvec[0:]\<close>, the
  whole string.
\<close>

lemma objective_no_args:
  assumes "args f = []"
  shows "get_objective_fn f bitvec
           = err_bind (simulate f (map (\<lambda>c. c = CHR ''1'') (rev bitvec)))
               (\<lambda>output. case output of [] \<Rightarrow> Inl IndexError | b # _ \<Rightarrow> Inr (if b then 0 else 1))"
  using assms by (simp add: get_objective_fn_def Let_def slice_from_zero)

text \<open>
  C2. For a formula with \<open>k \<ge> 1\<close> input variables and a measured bitstring of length at
  least \<open>k\<close>, the closure simulates the reversal of the last \<open>k\<close> characters, each read as
  true exactly when it is \<open>1\<close>, and returns 0 when the first output is true and 1 when it
  is false (what the simulator raises is passed on, and no output is an IndexError). The
  characters before the last \<open>k\<close> do not matter: any other ancilla characters in front of
  the same last \<open>k\<close> give the same result.
\<close>

theorem objective_of_last_inputs:
  assumes "0 < length (args f)" and "length (args f) \<le> length bitvec"
  shows "get_objective_fn f bitvec
           = (case simulate f (map (\<lambda>c. c = CHR ''1'')
                                 (rev (drop (length bitvec - length (args f)) bitvec))) of
                Inl e \<Rightarrow> Inl e
              | Inr [] \<Rightarrow> Inl IndexError
              | Inr (b # _) \<Rightarrow> Inr (if b then 0 else 1))
         \<and> (\<forall>anc. get_objective_fn f (anc @ drop (length bitvec - length (args f)) bitvec)
                    = get_objective_fn f bitvec)"
proof -
  let ?k = "length (args f)"
  have eval: "get_objective_fn f s
           = (case simulate f (map (\<lambda>c. c = CHR ''1'') (rev (drop (length s - ?k) s))) of
                Inl e \<Rightarrow> Inl e
              | Inr [] \<Rightarrow> Inl IndexError
              | Inr (b # _) \<Rightarrow> Inr (if b then 0 else 1))"
    if "?k \<le> length s" for s
    using that assms(1) slice_from_last [of ?k s]
    by (simp add: get_objective_fn_def Let_def err_bind_def split: sum.splits)
  have "get_objective_fn f (anc @ drop (length bitvec - ?k) bitvec) = get_objective_fn f bitvec"
    for anc
  proof -
    let ?inp = "drop (length bitvec - ?k) bitvec"
    have len: "length ?inp = ?k" using assms(2) by simp
    then have "drop (length (anc @ ?inp) - ?k) (anc @ ?inp) = ?inp" by simp
    moreover have "?k \<le> length (anc @ ?inp)" using len by simp
    ultimately show ?thesis using eval [of "anc @ ?inp"] eval [OF assms(2)] by simp
  qed
  with eval [OF assms(2)] show ?thesis by blast
qed

theorem objective_of_last_inputs_witness:
  "0 < length (args x1_not_x2_formula) \<and> length (args x1_not_x2_formula) \<le> length ''101''
   \<and> get_objective_fn x1_not_x2_formula ''101'' = Inr 0
   \<and> get_objective_fn x1_not_x2_formula ''001'' = Inr 0
   \<and> get_objective_fn x1_not_x2_formula ''110'' = Inr 1"
proof -
  have k: "0 < length (args x1_not_x2_formula)"
    and l: "length (args x1_not_x2_formula) \<le> length ''101''"
    and m: "length (args x1_not_x2_formula) \<le> length ''110''"
    by (simp_all add: x1_not_x2_formula_def)
  from objective_of_last_inputs [OF k l, THEN conjunct1]
  have a: "get_objective_fn x1_not_x2_formula ''101'' = Inr 0"
    by (simp add: x1_not_x2_formula_def)
  from objective_of_last_inputs [OF k l, THEN conjunct2, rule_format, of "''0''"]
  have b: "get_objective_fn x1_not_x2_formula ''001'' = get_objective_fn x1_not_x2_formula ''101''"
    by (simp add: x1_not_x2_formula_def)
  from objective_of_last_inputs [OF k m, THEN conjunct1]
  have c: "get_objective_fn x1_not_x2_formula ''110'' = Inr 1"
    by (simp add: x1_not_x2_formula_def)
  from k l a b c show ?thesis by simp
qed

text \<open>
  C6, as amended. On a bitstring shorter than the number \<open>k\<close> of input variables the closure
  raises nothing of its own: the slice is the whole bitstring, its reversal (fewer than
  \<open>k\<close> booleans) goes to the simulator, and the answer is 0 or 1 by the first output (or
  what the simulator raises, or IndexError on no output).
\<close>

theorem objective_short_bitstring:
  assumes "length bitvec < length (args f)"
  shows "get_objective_fn f bitvec
           = (case simulate f (map (\<lambda>c. c = CHR ''1'') (rev bitvec)) of
                Inl e \<Rightarrow> Inl e
              | Inr [] \<Rightarrow> Inl IndexError
              | Inr (b # _) \<Rightarrow> Inr (if b then 0 else 1))"
  using assms slice_from_short [of bitvec "length (args f)"]
  by (simp add: get_objective_fn_def Let_def err_bind_def split: sum.splits)

theorem objective_short_bitstring_witness:
  "length ''1'' < length (args and_formula) \<and> get_objective_fn and_formula ''1'' = Inr 0"
  using objective_short_bitstring [of "''1''" and_formula]
  by (simp add: and_formula_def)

theorem objective_short_bitstring_counterexample:
  "length ''1'' < length (args and_formula)
   \<and> get_objective_fn and_formula ''1'' \<noteq> Inl MalformedMeasurementError"
  by (simp add: and_formula_def get_objective_fn_def slice_from_def err_bind_def)

section \<open>The mean objective of a count dictionary\<close>

lemma obj_fn_loop_sums:
  "\<forall>(b, c)\<in>set cts. f b = Inr (g b) \<Longrightarrow>
   obj_fn_loop f cts s n
     = Inr (s + (\<Sum>(b, c)\<leftarrow>cts. g b * of_int c), n + (\<Sum>(b, c)\<leftarrow>cts. c))"
  by (induction cts arbitrary: s n) (auto simp: err_bind_def algebra_simps)

lemma weighted_sum_bounds:
  "\<forall>(b, c)\<in>set cts. (g b = 0 \<or> g b = (1::real)) \<and> 0 \<le> c \<Longrightarrow>
   0 \<le> (\<Sum>(b, c)\<leftarrow>cts. g b * of_int c)
   \<and> (\<Sum>(b, c)\<leftarrow>cts. g b * of_int c) \<le> of_int (\<Sum>(b, c)\<leftarrow>cts. c)"
  by (induction cts) auto

lemma obj_fn_mean:
  assumes "\<forall>(b, c)\<in>set cts. obj_value_fn self b = Inr (g b)" and "(\<Sum>(b, c)\<leftarrow>cts. c) \<noteq> 0"
  shows "obj_fn self cts = Inr ((\<Sum>(b, c)\<leftarrow>cts. g b * of_int c) / of_int (\<Sum>(b, c)\<leftarrow>cts. c))"
  using assms by (simp add: obj_fn_def obj_fn_loop_sums err_bind_def)

lemma obj_fn_zero_total:
  assumes "\<forall>(b, c)\<in>set cts. obj_value_fn self b = Inr (g b)" and "(\<Sum>(b, c)\<leftarrow>cts. c) = 0"
  shows "obj_fn self cts = Inl ZeroDivisionError"
  using assms by (simp add: obj_fn_def obj_fn_loop_sums err_bind_def)

lemma obj_fn_unit:
  assumes "\<forall>(b, c)\<in>set cts. obj_value_fn self b = Inr (g b) \<and> (g b = 0 \<or> g b = 1) \<and> 0 \<le> c"
    and "0 < (\<Sum>(b, c)\<leftarrow>cts. c)"
  shows "\<exists>v. obj_fn self cts = Inr v \<and> 0 \<le> v \<and> v \<le> 1"
proof -
  let ?w = "(\<Sum>(b, c)\<leftarrow>cts. g b * of_int c)" and ?t = "(\<Sum>(b, c)\<leftarrow>cts. c)"
  have m: "obj_fn self cts = Inr (?w / of_int ?t)"
    using assms by (intro obj_fn_mean) auto
  have b: "0 \<le> ?w \<and> ?w \<le> of_int ?t"
    using assms(1) by (intro weighted_sum_bounds) auto
  have "0 \<le> ?w / of_int ?t \<and> ?w / of_int ?t \<le> 1"
    using b assms(2) by (simp add: divide_le_eq)
  with m show ?thesis by blast
qed

lemma obj_fn_example:
  "obj_value_fn self ''00'' = Inr 1 \<Longrightarrow> obj_value_fn self ''11'' = Inr 0 \<Longrightarrow>
   obj_fn self [(''00'', 5), (''11'', 5)] = Inr (1 / 2)"
  by (simp add: obj_fn_def err_bind_def)

text \<open>
  C3, as amended. Let the objective give the value \<open>g b\<close> on every bitstring \<open>b\<close> of the
  counts. When the counts do not add up to zero, \<^verbatim>\<open>obj_fn\<close> returns the sum of
  \<open>g b * count\<close> divided by the sum of the counts. When moreover every \<open>g b\<close> is 0 or 1, no
  count is negative and the total is positive, the result lies between 0 and 1. On
  \<open>{"00": 5, "11": 5}\<close> with objective 1 on \<open>00\<close> and 0 on \<open>11\<close> the result is one half.
\<close>

theorem obj_fn_weighted_mean:
  "((\<forall>(b, c)\<in>set cts. obj_value_fn self b = Inr (g b)) \<and> (\<Sum>(b, c)\<leftarrow>cts. c) \<noteq> 0 \<longrightarrow>
      obj_fn self cts
        = Inr ((\<Sum>(b, c)\<leftarrow>cts. g b * of_int c) / of_int (\<Sum>(b, c)\<leftarrow>cts. c)))
   \<and> ((\<forall>(b, c)\<in>set cts. obj_value_fn self b = Inr (g b) \<and> (g b = 0 \<or> g b = 1) \<and> 0 \<le> c)
        \<and> 0 < (\<Sum>(b, c)\<leftarrow>cts. c) \<longrightarrow>
      (\<exists>v. obj_fn self cts = Inr v \<and> 0 \<le> v \<and> v \<le> 1))
   \<and> (obj_value_fn self ''00'' = Inr 1 \<and> obj_value_fn self ''11'' = Inr 0 \<longrightarrow>
      obj_fn self [(''00'', 5), (''11'', 5)] = Inr (1 / 2))"
  using obj_fn_mean [of cts self g] obj_fn_unit [of cts self g] obj_fn_example [of self]
  by blast

theorem obj_fn_weighted_mean_witness:
  "obj_fn zeros_cost_driver [(''00'', 5), (''11'', 5)] = Inr (1 / 2)
   \<and> obj_fn zeros_cost_driver [(''00'', 3), (''01'', 1)] = Inr (3 / 4)"
  using
    obj_fn_weighted_mean
      [of "[(''00'', 5), (''11'', 5)]" zeros_cost_driver "\<lambda>b. if b = ''00'' then 1 else 0"]
    obj_fn_weighted_mean
      [of "[(''00'', 3), (''01'', 1)]" zeros_cost_driver "\<lambda>b. if b = ''00'' then 1 else 0"]
  by (simp add: zeros_cost_driver_def init_def)

text \<open>A dictionary that is not empty and whose counts add up to zero: the division fails.\<close>

theorem obj_fn_zero_total_counterexample:
  "[(''00'', 0::int)] \<noteq> [] \<and> obj_fn zeros_cost_driver [(''00'', 0)] = Inl ZeroDivisionError"
  by (simp add: zeros_cost_driver_def init_def obj_fn_def err_bind_def)

text \<open>
  C5, as amended. On the empty dictionary \<^verbatim>\<open>obj_fn\<close> divides \<^verbatim>\<open>float(0)\<close> by \<^verbatim>\<open>float(0)\<close>
  and so raises ZeroDivisionError.
\<close>

theorem obj_fn_empty_counts: "obj_fn self [] = Inl ZeroDivisionError"
  by (simp add: obj_fn_def err_bind_def)

theorem obj_fn_empty_counts_counterexample:
  "obj_fn zeros_cost_driver [] \<noteq> Inl NoMeasurementsError"
  by (simp add: obj_fn_def err_bind_def)

section \<open>The executor and the best result\<close>

text \<open>
  C10. A call of the executor leaves \<^verbatim>\<open>cost_op\<close>, \<^verbatim>\<open>obj_value_fn\<close> and \<^verbatim>\<open>init_circuit\<close> as
  they were. When it returns a value strictly below the current \<^verbatim>\<open>best_fval\<close>, the driver
  afterwards differs in \<^verbatim>\<open>best_fval\<close> (that value) and \<^verbatim>\<open>best_params\<close> (the parameters of
  the call) only; in every other case, a raised exception included, the driver is exactly
  as before.
\<close>

theorem execute_frame:
  "execute self paramlist r = (res, self') \<Longrightarrow>
     cost_op self' = cost_op self \<and> obj_value_fn self' = obj_value_fn self
     \<and> init_circuit self' = init_circuit self
     \<and> (if \<exists>v b. res = Inr v \<and> best_fval self = Some b \<and> v < b
         then self' = self\<lparr>best_fval := Some (projr res), best_params := Some paramlist\<rparr>
         else self' = self)"
  by (auto simp: execute_def split: sum.splits option.splits if_splits)

lemma x1_driver_values:
  "obj_value_fn x1_driver ''00'' = Inr 1"
  "obj_value_fn x1_driver ''01'' = Inr 0"
  "obj_value_fn x1_driver ''11'' = Inr 0"
  by (simp_all add: x1_driver_def init_def get_objective_fn_def x1_formula_def
      slice_from_def err_bind_def)

theorem execute_frame_witness:
  "execute (run_reset x1_driver) [1, 2] (Inr [(''00'', 1), (''01'', 1)])
     = (Inr (1 / 2), (run_reset x1_driver)\<lparr>best_fval := Some (1 / 2), best_params := Some [1, 2]\<rparr>)
   \<and> cost_op ((run_reset x1_driver)\<lparr>best_fval := Some (1 / 2), best_params := Some [1, 2]\<rparr>)
       = cost_op (run_reset x1_driver)"
proof -
  have e: "execute (run_reset x1_driver) [1, 2] (Inr [(''00'', 1), (''01'', 1)])
     = (Inr (1 / 2), (run_reset x1_driver)\<lparr>best_fval := Some (1 / 2), best_params := Some [1, 2]\<rparr>)"
    by (simp add: execute_def obj_fn_def err_bind_def x1_driver_values run_reset_def)
  from execute_frame [OF e] e show ?thesis by simp
qed

text \<open>Before \<^verbatim>\<open>run\<close> has set \<^verbatim>\<open>best_fval\<close>, the comparison fails on the missing attribute.\<close>

lemma execute_before_run:
  "best_fval self = None \<Longrightarrow> obj_fn self cts = Inr v \<Longrightarrow>
     execute self paramlist (Inr cts) = (Inl AttributeError, self)"
  by (simp add: execute_def)

text \<open>The first two assignments of \<^verbatim>\<open>run\<close>, and its default start vector.\<close>

lemma run_reset_fields:
  "best_fval (run_reset self) = Some 1000 \<and> best_params (run_reset self) = None
   \<and> cost_op (run_reset self) = cost_op self \<and> obj_value_fn (run_reset self) = obj_value_fn self
   \<and> init_circuit (run_reset self) = init_circuit self"
  by (simp add: run_reset_def)

lemma default_initial_parameters_range:
  assumes "0 \<le> p" and "\<forall>k. 0 \<le> random_sample k \<and> random_sample k < 1"
  shows "int (length (run_initial_parameters p None random_sample)) = 2 * p
     \<and> (\<forall>x\<in>set (run_initial_parameters p None random_sample). 0 \<le> x \<and> x < pi)"
  using assms by (auto simp: run_initial_parameters_def py_range_def)

text \<open>Initial parameters that are given are the start vector as they are.\<close>

lemma run_given_initial_parameters:
  "run_initial_parameters p (Some x0) random_sample = x0"
  by (simp add: run_initial_parameters_def)

subsection \<open>The best result over a sequence of calls\<close>

lemma length_execute_calls: "length (fst (execute_calls s calls)) = length calls"
proof (induction calls arbitrary: s)
  case Nil
  show ?case by simp
next
  case (Cons c calls)
  obtain p r where c: "c = (p, r)" by (cases c)
  obtain x s1 where e: "execute s p r = (x, s1)" by (cases "execute s p r")
  obtain xs s2 where es: "execute_calls s1 calls = (xs, s2)" by (cases "execute_calls s1 calls")
  show ?case using Cons.IH[of s1] by (simp add: c e es)
qed

lemma execute_value:
  "execute s p r = (Inr v, s1) \<Longrightarrow> best_fval s = Some b \<Longrightarrow>
     s1 = (if v < b then s\<lparr>best_fval := Some v, best_params := Some p\<rparr> else s)"
  by (auto simp: execute_def split: sum.splits option.splits if_splits)

lemma Min_cons_less:
  fixes v :: real
  assumes "w \<in> set vs" and "w < v"
  shows "Min (set (v # vs)) = Min (set vs)" and "Min (set vs) < v"
proof -
  have ne: "set vs \<noteq> {}" using assms(1) by auto
  have "Min (set vs) \<le> w" using assms(1) by simp
  then show lt: "Min (set vs) < v" using assms(2) by simp
  have "Min (set (v # vs)) = min v (Min (set vs))"
    using ne by simp
  then show "Min (set (v # vs)) = Min (set vs)" using lt by simp
qed

lemma execute_calls_best:
  "execute_calls s calls = (map Inr vals, s') \<Longrightarrow> best_fval s = Some b \<Longrightarrow>
     best_fval s' = Some (Min (insert b (set vals)))
     \<and> (if \<forall>v\<in>set vals. b \<le> v then best_params s' = best_params s
        else \<exists>i<length calls. vals ! i = Min (set vals) \<and> (\<forall>j<i. vals ! i < vals ! j)
               \<and> best_params s' = Some (fst (calls ! i)))"
proof (induction calls arbitrary: s b vals)
  case Nil
  then show ?case by auto
next
  case (Cons c calls)
  obtain p r where c: "c = (p, r)" by (cases c)
  obtain x s1 where e: "execute s p r = (x, s1)" by (cases "execute s p r")
  obtain xs s2 where es: "execute_calls s1 calls = (xs, s2)" by (cases "execute_calls s1 calls")
  from Cons.prems(1) c e es have eq: "x # xs = map Inr vals" "s2 = s'" by auto
  then obtain v vs where vals: "vals = v # vs" "x = Inr v" "xs = map Inr vs" by (cases vals) auto
  have s1: "s1 = (if v < b then s\<lparr>best_fval := Some v, best_params := Some p\<rparr> else s)"
    using execute_value e vals Cons.prems(2) by blast
  have len: "length vs = length calls"
    using length_execute_calls[of s1 calls] es vals by simp
  have rest: "execute_calls s1 calls = (map Inr vs, s')"
    using es eq vals by simp
  define b1 where "b1 = (if v < b then v else b)"
  have b1: "best_fval s1 = Some b1"
    using s1 Cons.prems(2) by (simp add: b1_def)
  note IH = Cons.IH[OF rest b1]
  have fval: "Min (insert b (set vals)) = Min (insert b1 (set vs))"
  proof (cases "v < b")
    case True
    have le: "Min (insert v (set vs)) \<le> v" by simp
    have "min b (Min (insert v (set vs))) = Min (insert v (set vs))"
      by (rule min_absorb2) (use le True in linarith)
    moreover have "Min (insert b (insert v (set vs))) = min b (Min (insert v (set vs)))"
      by (rule Min_insert) simp_all
    ultimately show ?thesis using True by (simp add: vals b1_def)
  next
    case False
    have le: "Min (insert b (set vs)) \<le> b" by simp
    have "min v (Min (insert b (set vs))) = Min (insert b (set vs))"
      by (rule min_absorb2) (use le False in linarith)
    moreover have "Min (insert v (insert b (set vs))) = min v (Min (insert b (set vs)))"
      by (rule Min_insert) simp_all
    ultimately show ?thesis using False by (simp add: vals b1_def insert_commute)
  qed
  have bf: "best_fval s' = Some (Min (insert b (set vals)))"
    using IH fval by simp
  have "if \<forall>u\<in>set vals. b \<le> u then best_params s' = best_params s
        else \<exists>i<length (c # calls). vals ! i = Min (set vals) \<and> (\<forall>j<i. vals ! i < vals ! j)
               \<and> best_params s' = Some (fst ((c # calls) ! i))"
  proof (cases "\<forall>w\<in>set vs. b1 \<le> w")
    case True
    with IH have bp: "best_params s' = best_params s1" by simp
    show ?thesis
    proof (cases "v < b")
      case v: True
      have "Min (set (v # vs)) = v"
        using True v by (intro Min_eqI) (auto simp: b1_def)
      moreover have "best_params s' = Some p" using bp s1 v by simp
      ultimately have "0 < length (c # calls) \<and> vals ! 0 = Min (set vals)
          \<and> (\<forall>j<0. vals ! 0 < vals ! j) \<and> best_params s' = Some (fst ((c # calls) ! 0))"
        by (simp add: vals c)
      moreover have "\<not> (\<forall>u\<in>set vals. b \<le> u)" using v by (auto simp: vals)
      ultimately show ?thesis by (simp only: if_False) blast
    next
      case v: False
      then have "\<forall>u\<in>set vals. b \<le> u" using True by (auto simp: vals b1_def)
      moreover have "best_params s' = best_params s" using bp s1 v by simp
      ultimately show ?thesis by simp
    qed
  next
    case False
    then obtain w where w: "w \<in> set vs" "w < b1" by auto
    from IH False obtain i where i: "i < length calls" "vs ! i = Min (set vs)"
      "\<forall>j<i. vs ! i < vs ! j" "best_params s' = Some (fst (calls ! i))"
      by auto
    have "b1 \<le> v" by (simp add: b1_def)
    with w have wv: "w < v" by simp
    note m = Min_cons_less[OF w(1) wv]
    have nall: "\<not> (\<forall>u\<in>set vals. b \<le> u)"
    proof (cases "v < b")
      case True
      then show ?thesis by (auto simp: vals)
    next
      case False
      then have "\<not> b \<le> w" using w by (simp add: b1_def)
      with w(1) show ?thesis unfolding vals by (meson list.set_intros(2))
    qed
    have "Suc i < length (c # calls) \<and> vals ! Suc i = Min (set vals)
        \<and> (\<forall>j<Suc i. vals ! Suc i < vals ! j)
        \<and> best_params s' = Some (fst ((c # calls) ! Suc i))"
      using i m by (auto simp: vals less_Suc_eq_0_disj)
    then show ?thesis using nall by (simp only: if_False) blast
  qed
  with bf show ?case by simp
qed

text \<open>
  C4, as amended. After any sequence of executor calls that follows the reset of \<^verbatim>\<open>run\<close>
  and returns the values \<open>vals\<close>, \<^verbatim>\<open>best_fval\<close> is the least of 1000 and the values. When
  no value is below 1000, \<^verbatim>\<open>best_params\<close> is still \<^verbatim>\<open>None\<close>; otherwise it is the parameter
  vector of the earliest call that returned the least value.
\<close>

theorem best_result_after_calls:
  assumes "execute_calls (run_reset self) calls = (map Inr vals, self')"
  shows "best_fval self' = Some (Min (insert 1000 (set vals)))
     \<and> (if \<forall>v\<in>set vals. 1000 \<le> v then best_params self' = None
        else \<exists>i<length calls. vals ! i = Min (set vals) \<and> (\<forall>j<i. vals ! i < vals ! j)
               \<and> best_params self' = Some (fst (calls ! i)))"
  using execute_calls_best [OF assms, of 1000] by (simp add: run_reset_def)

lemma x1_calls_run:
  "execute_calls (run_reset x1_driver) x1_calls
     = (map Inr [1 / 2, 0, 0],
        (run_reset x1_driver)\<lparr>best_fval := Some 0, best_params := Some [3, 4]\<rparr>)"
  by (simp add: x1_calls_def execute_def obj_fn_def err_bind_def x1_driver_values run_reset_def)

theorem best_result_after_calls_witness:
  "execute_calls (run_reset x1_driver) x1_calls
     = (map Inr [1 / 2, 0, 0],
        (run_reset x1_driver)\<lparr>best_fval := Some 0, best_params := Some [3, 4]\<rparr>)
   \<and> Min (insert 1000 (set [1 / 2, 0, 0::real])) = 0
   \<and> fst (x1_calls ! 1) = [3, 4]"
proof -
  from best_result_after_calls [OF x1_calls_run]
  have "Some (0::real) = Some (Min (insert 1000 (set [1 / 2, 0, 0])))"
    by simp
  then show ?thesis
    using x1_calls_run by (simp add: x1_calls_def)
qed

text \<open>One call that returns 2000: the least value returned is 2000, the best result is not.\<close>

theorem best_result_after_calls_counterexample:
  "fst (execute_calls (run_reset (constant_driver 2000)) [([1], Inr [(''0'', 1)])]) = [Inr 2000]
   \<and> best_fval (snd (execute_calls (run_reset (constant_driver 2000)) [([1], Inr [(''0'', 1)])]))
       = Some 1000
   \<and> best_params (snd (execute_calls (run_reset (constant_driver 2000)) [([1], Inr [(''0'', 1)])]))
       = None"
  by (simp add: execute_def run_reset_def constant_driver_def init_def obj_fn_def err_bind_def)

subsection \<open>The calls of a run\<close>

text \<open>
  The evaluations of an optimization that stops are a sequence of executor calls, each of
  which returned a value, and the best result that \<^verbatim>\<open>run\<close> returns is the one that sequence
  leaves, counted from the reset.
\<close>

lemma minimize_calls:
  "minimize opt x0 evals rs s = Some (Inr res, rest, s') \<Longrightarrow>
     \<exists>calls vals. execute_calls s calls = (map Inr vals, s') \<and> rs = map snd calls @ rest
        \<and> opt x0 (evals @ zip (map fst calls) vals) = Finish res"
proof (induction opt x0 evals rs s rule: minimize.induct)
  case (1 opt x0 evals rs s)
  show ?case
  proof (cases "opt x0 evals")
    case (Finish r)
    with "1.prems" have "execute_calls s [] = (map Inr [], s')" "rs = map snd [] @ rest" "r = res"
      by simp_all
    with Finish show ?thesis by (intro exI [of _ "[]"]) simp
  next
    case (Evaluate paramlist)
    with "1.prems" obtain r rs' where rs: "rs = r # rs'"
      by (cases rs) simp_all
    obtain x s1 where e: "execute s paramlist r = (x, s1)"
      by (cases "execute s paramlist r")
    from "1.prems" Evaluate rs e obtain v where x: "x = Inr v"
      by (cases x) simp_all
    from "1.prems" Evaluate rs e x
    have m: "minimize opt x0 (evals @ [(paramlist, v)]) rs' s1 = Some (Inr res, rest, s')"
      by simp
    from "1.IH" [OF Evaluate rs e [symmetric] x m]
    obtain calls vals where c: "execute_calls s1 calls = (map Inr vals, s')"
      "rs' = map snd calls @ rest"
      "opt x0 ((evals @ [(paramlist, v)]) @ zip (map fst calls) vals) = Finish res"
      by blast
    have "execute_calls s ((paramlist, r) # calls) = (map Inr (v # vals), s')"
      using e x c(1) by simp
    moreover have "rs = map snd ((paramlist, r) # calls) @ rest"
      using rs c(2) by simp
    moreover have "opt x0 (evals @ zip (map fst ((paramlist, r) # calls)) (v # vals)) = Finish res"
      using c(3) by simp
    ultimately show ?thesis by blast
  qed
qed

lemma run_returns:
  assumes "run self p rs opt ip rnd = Some (Inr (result, outputs, bf, bp), self')"
  shows "\<exists>calls vals. execute_calls (run_reset self) calls = (map Inr vals, self')
       \<and> bf = best_fval self' \<and> bp = best_params self'
       \<and> opt (run_initial_parameters p ip rnd) (zip (map fst calls) vals) = Finish result"
proof -
  from assms obtain rest
    where m: "minimize opt (run_initial_parameters p ip rnd) [] rs (run_reset self)
                = Some (Inr result, rest, self')"
      and b: "bf = best_fval self'" "bp = best_params self'"
    by (auto simp: run_def Let_def split: option.splits sum.splits list.splits)
  from minimize_calls [OF m] b show ?thesis by auto
qed

text \<open>
  A run that returns: the one-shot optimizer on the driver of \<open>x1\<close>, started at \<open>[1]\<close>,
  with a backend that measures \<open>01\<close> twice in each of its two runs.
\<close>

lemma run_one_shot:
  "run x1_driver 1 [Inr [(''01'', 2)], Inr [(''01'', 2)]] one_shot_optimizer (Some [1]) (\<lambda>k. 0)
     = Some (Inr (0, [(''01'', 2)], Some 0, Some [1]),
             x1_driver\<lparr>best_fval := Some 0, best_params := Some [1]\<rparr>)"
  by (simp add: run_def Let_def run_initial_parameters_def one_shot_optimizer_def execute_def
      obj_fn_def err_bind_def x1_driver_values run_reset_def)

text \<open>The optimizer sees its start vector only, and the objective does not read the best result.\<close>

lemma minimize_start:
  "minimize (\<lambda>y. opt x0) z evals rs s = minimize opt x0 evals rs s"
proof (induction opt x0 evals rs s rule: minimize.induct)
  case (1 opt x0 evals rs s)
  show ?case
  proof (cases "opt x0 evals")
    case (Finish r)
    then show ?thesis by simp
  next
    case (Evaluate paramlist)
    show ?thesis
    proof (cases rs)
      case Nil
      with Evaluate show ?thesis by simp
    next
      case (Cons r rs')
      obtain x s1 where e: "execute s paramlist r = (x, s1)"
        by (cases "execute s paramlist r")
      show ?thesis
      proof (cases x)
        case (Inl err)
        with Evaluate Cons e show ?thesis by simp
      next
        case (Inr v)
        from "1.IH" [OF Evaluate Cons e [symmetric] Inr] Evaluate Cons e Inr
        show ?thesis by simp
      qed
    qed
  qed
qed

lemma obj_fn_best_fields:
  "obj_fn (self\<lparr>best_fval := bf, best_params := bp\<rparr>) cts = obj_fn self cts"
  by (simp add: obj_fn_def)

text \<open>
  C7, as amended. \<^verbatim>\<open>run\<close> starts by setting \<^verbatim>\<open>best_fval\<close> to the number 1000 and
  \<^verbatim>\<open>best_params\<close> to \<^verbatim>\<open>None\<close>, before any executor call: what \<^verbatim>\<open>run\<close> does is the same
  whatever the two fields held before; when the optimizer stops without a call, \<^verbatim>\<open>run\<close>
  leaves the driver with 1000 and \<^verbatim>\<open>None\<close> (and returns them, if the last run of the
  backend succeeds); when the first call raises, \<^verbatim>\<open>run\<close> raises and leaves the driver so too;
  and when \<^verbatim>\<open>run\<close> returns, the driver it leaves is the one that a sequence of executor
  calls leaves, starting from the driver with 1000 and \<^verbatim>\<open>None\<close>.
\<close>

theorem run_resets_best_result:
  "run (self\<lparr>best_fval := bf, best_params := bp\<rparr>) p rs opt ip rnd = run self p rs opt ip rnd
   \<and> (opt (run_initial_parameters p ip rnd) [] = Finish res \<longrightarrow>
        run self p (r # rest) opt ip rnd
          = Some (case r of
                    Inl e \<Rightarrow> Inl e
                  | Inr outputs \<Rightarrow> Inr (res, outputs, Some 1000, None),
                  self\<lparr>best_fval := Some 1000, best_params := None\<rparr>))
   \<and> (opt (run_initial_parameters p ip rnd) [] = Evaluate paramlist
        \<and> execute (self\<lparr>best_fval := Some 1000, best_params := None\<rparr>) paramlist r = (Inl e, s1) \<longrightarrow>
        run self p (r # rest) opt ip rnd
          = Some (Inl e, self\<lparr>best_fval := Some 1000, best_params := None\<rparr>))
   \<and> (run self p rs opt ip rnd = Some (Inr (result, outputs, bf', bp'), self') \<longrightarrow>
        (\<exists>calls vals.
            execute_calls (self\<lparr>best_fval := Some 1000, best_params := None\<rparr>) calls
              = (map Inr vals, self')
            \<and> bf' = best_fval self' \<and> bp' = best_params self'))"
proof -
  have a: "run (self\<lparr>best_fval := bf, best_params := bp\<rparr>) p rs opt ip rnd = run self p rs opt ip rnd"
    by (simp add: run_def run_reset_def)
  have b: "run self p (r # rest) opt ip rnd
          = Some (case r of
                    Inl e \<Rightarrow> Inl e
                  | Inr outputs \<Rightarrow> Inr (res, outputs, Some 1000, None),
                  self\<lparr>best_fval := Some 1000, best_params := None\<rparr>)"
    if "opt (run_initial_parameters p ip rnd) [] = Finish res"
    using that by (simp add: run_def Let_def run_reset_def split: sum.splits)
  have c: "run self p (r # rest) opt ip rnd
          = Some (Inl e, self\<lparr>best_fval := Some 1000, best_params := None\<rparr>)"
    if "opt (run_initial_parameters p ip rnd) [] = Evaluate paramlist"
      and "execute (self\<lparr>best_fval := Some 1000, best_params := None\<rparr>) paramlist r = (Inl e, s1)"
  proof -
    have "s1 = self\<lparr>best_fval := Some 1000, best_params := None\<rparr>"
      using that(2) by (auto simp: execute_def split: sum.splits option.splits if_splits)
    then show ?thesis
      using that by (simp add: run_def Let_def run_reset_def)
  qed
  have d: "\<exists>calls vals.
            execute_calls (self\<lparr>best_fval := Some 1000, best_params := None\<rparr>) calls
              = (map Inr vals, self')
            \<and> bf' = best_fval self' \<and> bp' = best_params self'"
    if "run self p rs opt ip rnd = Some (Inr (result, outputs, bf', bp'), self')"
    using run_returns [OF that] by (auto simp: run_reset_def)
  from a b c d show ?thesis by blast
qed

theorem run_resets_best_result_witness:
  "run (x1_driver\<lparr>best_fval := Some (- 5), best_params := Some [9]\<rparr>) 1
       [Inr [(''01'', 2)], Inr [(''01'', 2)]] one_shot_optimizer (Some [1]) (\<lambda>k. 0)
     = Some (Inr (0, [(''01'', 2)], Some 0, Some [1]),
             x1_driver\<lparr>best_fval := Some 0, best_params := Some [1]\<rparr>)
   \<and> run x1_driver 1 [Inl (ExternalError ''bind_parameters'')] (\<lambda>x0 evals. Finish (0::real))
       (Some [1]) (\<lambda>k. 0)
     = Some (Inl (ExternalError ''bind_parameters''),
             x1_driver\<lparr>best_fval := Some 1000, best_params := None\<rparr>)"
proof -
  have stale: "run (x1_driver\<lparr>best_fval := Some (- 5), best_params := Some [9]\<rparr>) 1
       [Inr [(''01'', 2)], Inr [(''01'', 2)]] one_shot_optimizer (Some [1]) (\<lambda>k. 0)
     = run x1_driver 1 [Inr [(''01'', 2)], Inr [(''01'', 2)]] one_shot_optimizer (Some [1]) (\<lambda>k. 0)"
    using run_resets_best_result
      [where self = x1_driver and bf = "Some (- 5)" and bp = "Some [9]" and p = 1
         and rs = "[Inr [(''01'', 2)], Inr [(''01'', 2)]]" and opt = one_shot_optimizer
         and ip = "Some [1]" and rnd = "\<lambda>k. 0"]
    by blast
  have none: "run x1_driver 1 [Inl (ExternalError ''bind_parameters'')] (\<lambda>x0 evals. Finish (0::real))
       (Some [1]) (\<lambda>k. 0)
     = Some (Inl (ExternalError ''bind_parameters''),
             x1_driver\<lparr>best_fval := Some 1000, best_params := None\<rparr>)"
    using run_resets_best_result
      [where self = x1_driver and p = 1 and opt = "\<lambda>x0 evals. Finish (0::real)"
         and ip = "Some [1]" and rnd = "\<lambda>k. 0" and res = 0
         and r = "Inl (ExternalError ''bind_parameters'')" and rest = "[]"]
    by simp
  from stale none run_one_shot show ?thesis by simp
qed

text \<open>
  The number 1000 is not above every objective value: in this run the executor returns
  2000, and the best value stays 1000.
\<close>

theorem run_resets_best_result_counterexample:
  "run (constant_driver 2000) 1 [Inr [(''0'', 1)], Inl (ExternalError ''bind_parameters'')]
       one_shot_optimizer (Some [1]) (\<lambda>k. 0)
     = Some (Inl (ExternalError ''bind_parameters''),
             (constant_driver 2000)\<lparr>best_fval := Some 1000, best_params := None\<rparr>)
   \<and> execute ((constant_driver 2000)\<lparr>best_fval := Some 1000, best_params := None\<rparr>) [1]
         (Inr [(''0'', 1)])
     = (Inr 2000, (constant_driver 2000)\<lparr>best_fval := Some 1000, best_params := None\<rparr>)
   \<and> \<not> (2000 < (1000::real))"
  by (simp add: run_def Let_def run_initial_parameters_def one_shot_optimizer_def execute_def
      obj_fn_def err_bind_def constant_driver_def init_def run_reset_def)

text \<open>
  C8. With no initial parameters and \<open>p \<ge> 0\<close> layers, every sample of
  \<^verbatim>\<open>np.random.random_sample()\<close> being at least 0 and below 1, there is a vector \<open>x0\<close> of length
  \<open>2 * p\<close> with every entry at least 0 and below \<open>\<pi>\<close> that is the start vector \<^verbatim>\<open>run\<close> hands to
  the optimizer: \<^verbatim>\<open>run\<close> with any optimizer is \<^verbatim>\<open>run\<close> with that optimizer started at \<open>x0\<close>,
  and the optimizer that evaluates its start vector once and returns it makes \<^verbatim>\<open>run\<close> call
  the executor at \<open>x0\<close> and return \<open>x0\<close> as the optimizer's result.
\<close>

theorem run_default_initial_parameters:
  assumes "0 \<le> p" and "\<forall>k. 0 \<le> rnd k \<and> rnd k < 1"
  shows "\<exists>x0. int (length x0) = 2 * p \<and> (\<forall>x\<in>set x0. 0 \<le> x \<and> x < pi)
     \<and> (\<forall>(opt :: 'r optimizer) rs.
            run self p rs opt None rnd = run self p rs (\<lambda>y. opt x0) None rnd)
     \<and> (\<forall>cts v r rest. obj_fn self cts = Inr v \<longrightarrow>
          (let s1 = snd (execute (self\<lparr>best_fval := Some 1000, best_params := None\<rparr>) x0 (Inr cts))
           in run self p (Inr cts # r # rest) eval_once_optimizer None rnd
                = Some (case r of
                          Inl e \<Rightarrow> Inl e
                        | Inr outputs \<Rightarrow> Inr (x0, outputs, best_fval s1, best_params s1),
                        s1)))"
proof -
  let ?x0 = "run_initial_parameters p None rnd"
  let ?s0 = "self\<lparr>best_fval := Some 1000, best_params := None\<rparr>"
  have same: "run self p rs opt None rnd = run self p rs (\<lambda>y. opt ?x0) None rnd" for opt :: "'r optimizer" and rs
    by (simp only: run_def Let_def minimize_start)
  have probe: "run self p (Inr cts # r # rest) eval_once_optimizer None rnd
                = Some (case r of
                          Inl e \<Rightarrow> Inl e
                        | Inr outputs \<Rightarrow> Inr (?x0, outputs, best_fval s1, best_params s1),
                        s1)"
    if v: "obj_fn self cts = Inr v" and s1: "s1 = snd (execute ?s0 ?x0 (Inr cts))"
    for cts v r rest s1
  proof -
    have e: "execute ?s0 ?x0 (Inr cts) = (Inr v, s1)"
      using v s1 by (simp add: execute_def obj_fn_best_fields)
    show ?thesis
      using e by (simp add: run_def Let_def run_reset_def eval_once_optimizer_def split: sum.splits)
  qed
  from default_initial_parameters_range [OF assms] same probe
  show ?thesis
    by (intro exI [of _ ?x0]) (simp only: Let_def, blast)
qed

theorem run_default_initial_parameters_witness:
  "run phase_driver 1 [Inr [(''1'', 3), (''0'', 1)], Inr [(''1'', 4)]] eval_once_optimizer None
       (\<lambda>k. 1 / 2)
     = Some (Inr ([pi / 2, pi / 2], [(''1'', 4)], Some (1 / 4), Some [pi / 2, pi / 2]),
             phase_driver\<lparr>best_fval := Some (1 / 4), best_params := Some [pi / 2, pi / 2]\<rparr>)
   \<and> length [pi / 2, pi / 2] = 2 * (1::nat) \<and> 0 \<le> pi / 2 \<and> pi / 2 < pi"
proof -
  have r: "[0..<2] = [0, Suc 0]"
    by (simp add: upt_rec)
  show ?thesis
    using run_default_initial_parameters [of 1 "\<lambda>k. 1 / 2" phase_driver]
    by (simp add: run_def Let_def run_initial_parameters_def py_range_def r eval_once_optimizer_def
        execute_def obj_fn_def err_bind_def phase_driver_def init_def run_reset_def)
qed

end
